theory Spec2Isabelle
  imports Main
begin

section \<open>Voice assistant widget: the session controller of \<open>src/App.tsx\<close>\<close>

text \<open>
  The component \<open>App\<close> keeps three boolean flags, an optional error message, a reference to
  the current \<open>MediaRecorder\<close> and a reference to the list of recorded fragments. Its
  asynchronous functions are cut at their \<open>await\<close> points: every piece between two
  suspension points runs to completion on the event loop and is one state transformer here.
  The browser side (pending microphone requests, the recorders, the speech queue, the
  requests in flight) is part of the state, so that an event is delivered only when the
  browser could deliver it.

  Bytes are \<open>char\<close>s (8 bits), a blob is a \<open>string\<close>. The bodies of the two remote services
  have the shapes the code reads, every field optional.
\<close>

subsection \<open>Remote responses\<close>

text \<open>What \<open>await fetch(...)\<close> followed by \<open>await response.json()\<close> can give: a rejected
  promise (network failure, unreadable body), a status outside 2xx with its error payload, or
  a success status with a parsed body.\<close>

datatype 'a fetch_result = Rejected | NotOk string | Ok 'a

datatype js_error = Error string | TypeError | NetworkFailure

record stt_alternative =
  transcript :: "string option"

record stt_result =
  alternatives :: "stt_alternative list option"

record stt_response =
  results :: "stt_result list option"

record gemini_part =
  part_text :: "string option"

record gemini_content =
  parts :: "gemini_part list option"

record gemini_candidate =
  content :: "gemini_content option"

record gemini_response =
  candidates :: "gemini_candidate list option"

subsection \<open>Transcription client\<close>

definition b64_alphabet :: string where
  "b64_alphabet = ''ABCDEFGHIJKLMNOPQRSTUVWXYZabcdefghijklmnopqrstuvwxyz0123456789+/''"

definition b64_digit :: "nat \<Rightarrow> char" where
  "b64_digit i = b64_alphabet ! (i mod 64)"

text \<open>\<open>btoa\<close> on a binary string: three bytes give four digits, the tail is padded.\<close>

fun btoa :: "string \<Rightarrow> string" where
  "btoa [] = []"
| "btoa [a] =
     (let x = (of_char a :: nat)
      in [b64_digit (x div 4), b64_digit ((x mod 4) * 16), CHR ''='', CHR ''=''])"
| "btoa [a, b] =
     (let x = (of_char a :: nat); y = (of_char b :: nat)
      in [b64_digit (x div 4), b64_digit ((x mod 4) * 16 + y div 16),
          b64_digit ((y mod 16) * 4), CHR ''=''])"
| "btoa (a # b # c # rest) =
     (let x = (of_char a :: nat); y = (of_char b :: nat); z = (of_char c :: nat)
      in [b64_digit (x div 4), b64_digit ((x mod 4) * 16 + y div 16),
          b64_digit ((y mod 16) * 4 + z div 64), b64_digit (z mod 64)] @ btoa rest)"

record recognition_config =
  encoding :: string
  sampleRateHertz :: nat
  audioChannelCount :: nat
  languageCode :: string
  model :: string

record stt_request =
  config :: recognition_config
  audio_content :: string

text \<open>Lines 16 to 32: the blob's bytes are appended one by one to a binary string
  (\<open>reduce\<close> from the empty string), which is base64-encoded into the request body.\<close>

definition binaryString :: "string \<Rightarrow> string" where
  "binaryString buffer = foldl (\<lambda>data byte. data @ [byte]) [] buffer"

definition requestBody :: "string \<Rightarrow> stt_request" where
  "requestBody audioBlob =
     \<lparr> config = \<lparr> encoding = ''WEBM_OPUS'', sampleRateHertz = 48000,
                  audioChannelCount = 1, languageCode = ''en-US'', model = ''default'' \<rparr>,
       audio_content = btoa (binaryString audioBlob) \<rparr>"

text \<open>Lines 35 to 55, the body of the \<open>try\<close>. Reading \<open>alternatives[0].transcript\<close> of a
  result without a first alternative is a \<open>TypeError\<close>.\<close>

definition convertSpeechToText_try :: "stt_response fetch_result \<Rightarrow> js_error + string" where
  "convertSpeechToText_try response =
     (case response of
        Rejected \<Rightarrow> Inl NetworkFailure
      | NotOk errorData \<Rightarrow> Inl (Error (''Speech API error: '' @ errorData))
      | Ok data \<Rightarrow>
          (case results data of
             None \<Rightarrow> Inl (Error ''No transcription results received'')
           | Some [] \<Rightarrow> Inl (Error ''No transcription results received'')
           | Some (r # _) \<Rightarrow>
               (case alternatives r of
                  None \<Rightarrow> Inl TypeError
                | Some [] \<Rightarrow> Inl TypeError
                | Some (a # _) \<Rightarrow>
                    (case transcript a of
                       None \<Rightarrow> Inr ''''
                     | Some t \<Rightarrow> Inr (if t = '''' then '''' else t)))))"

text \<open>Lines 56 to 59: whatever was thrown is logged and replaced by one error.\<close>

definition convertSpeechToText :: "stt_response fetch_result \<Rightarrow> js_error + string" where
  "convertSpeechToText response =
     (case convertSpeechToText_try response of
        Inl _ \<Rightarrow> Inl (Error ''Failed to convert speech to text'')
      | Inr t \<Rightarrow> Inr t)"

subsection \<open>Response client\<close>

definition fallbackText :: string where
  "fallbackText = ''Sorry, I could not generate a response.''"

definition geminiPrompt :: "string \<Rightarrow> string" where
  "geminiPrompt t =
     ''Respond to this in a natural, spoken manner. Minimize use of numbering, unless absolutely needed. '' @ t"

text \<open>\<open>data.candidates?.[0]?.content?.parts?.[0]?.text\<close>: every missing link gives
  \<open>undefined\<close>.\<close>

definition firstCandidateText :: "gemini_response \<Rightarrow> string option" where
  "firstCandidateText data =
     (case candidates data of
        None \<Rightarrow> None
      | Some [] \<Rightarrow> None
      | Some (c # _) \<Rightarrow>
          (case content c of
             None \<Rightarrow> None
           | Some ct \<Rightarrow>
               (case parts ct of
                  None \<Rightarrow> None
                | Some [] \<Rightarrow> None
                | Some (p # _) \<Rightarrow> part_text p)))"

definition getGeminiResponse_try :: "gemini_response fetch_result \<Rightarrow> js_error + string" where
  "getGeminiResponse_try response =
     (case response of
        Rejected \<Rightarrow> Inl NetworkFailure
      | NotOk errorData \<Rightarrow> Inl (Error (''Gemini API error: '' @ errorData))
      | Ok data \<Rightarrow>
          (case firstCandidateText data of
             None \<Rightarrow> Inr fallbackText
           | Some t \<Rightarrow> Inr (if t = '''' then fallbackText else t)))"

definition getGeminiResponse :: "gemini_response fetch_result \<Rightarrow> js_error + string" where
  "getGeminiResponse response =
     (case getGeminiResponse_try response of
        Inl _ \<Rightarrow> Inl (Error ''Failed to get AI response'')
      | Inr t \<Rightarrow> Inr t)"

subsection \<open>The session\<close>

datatype recorder_state = Inactive | Recording

record recorder =
  rstate :: recorder_state
  stopQueued :: bool
  tracksLive :: bool

datatype pipeline_stage = AwaitingTranscript | AwaitingReply | Finished

text \<open>The first six fields are the component's \<open>useState\<close> and \<open>useRef\<close> cells (lines 7
  to 12); \<open>mediaRecorderRef\<close> holds the index of a recorder in \<open>recorders\<close>. The next five
  are the browser: \<open>getUserMedia\<close> calls not yet settled, every recorder constructed, every
  run of the \<open>onstop\<close> handler with the request it waits for, the utterances queued in
  \<open>speechSynthesis\<close>, and the number of utterances that \<open>cancel()\<close> removed and whose
  error event is still to come. The last three record the calls made: the request bodies sent to the
  speech endpoint, the arguments of \<open>getGeminiResponse\<close>, the arguments of \<open>speak\<close>.\<close>

record session =
  isRecording :: bool
  isPlaying :: bool
  isProcessing :: bool
  error :: "string option"
  mediaRecorderRef :: "nat option"
  audioChunksRef :: "string list"
  pendingMic :: nat
  recorders :: "recorder list"
  pipelines :: "pipeline_stage list"
  synthQueue :: "string list"
  cancelledUtterances :: nat
  sttRequests :: "stt_request list"
  geminiCalls :: "string list"
  speakCalls :: "string list"

definition initial :: session where
  "initial =
     \<lparr> isRecording = False, isPlaying = False, isProcessing = False, error = None,
       mediaRecorderRef = None, audioChunksRef = [], pendingMic = 0, recorders = [],
       pipelines = [], synthQueue = [], cancelledUtterances = 0, sttRequests = [],
       geminiCalls = [], speakCalls = [] \<rparr>"

subsection \<open>Speech output (lines 157 to 170)\<close>

definition speak :: "string \<Rightarrow> session \<Rightarrow> session" where
  "speak t s = s\<lparr> synthQueue := synthQueue s @ [t], speakCalls := speakCalls s @ [t] \<rparr>"

definition utterance_onend :: "session \<Rightarrow> session" where
  "utterance_onend s = s\<lparr> isPlaying := False \<rparr>"

definition utterance_onerror :: "session \<Rightarrow> session" where
  "utterance_onerror s = s\<lparr> isPlaying := False, error := Some ''Error playing audio response'' \<rparr>"

text \<open>\<open>speechSynthesis.cancel()\<close> removes every utterance from the queue. The engine reports
  each removed utterance through its error event (\<open>interrupted\<close> when it was being spoken,
  \<open>canceled\<close> when it was waiting), so the \<open>onerror\<close> that \<open>speak\<close> installed is still to
  run for each of them.\<close>

definition stopSpeaking :: "session \<Rightarrow> session" where
  "stopSpeaking s =
     s\<lparr> cancelledUtterances := cancelledUtterances s + length (synthQueue s),
        synthQueue := [],
        isPlaying := False \<rparr>"

subsection \<open>Recording (lines 94 to 155)\<close>

datatype mic_outcome = Granted | Denied

text \<open>\<open>startRecording\<close> up to its \<open>await\<close>: the microphone is requested.\<close>

definition startRecording :: "session \<Rightarrow> session" where
  "startRecording s = s\<lparr> pendingMic := Suc (pendingMic s) \<rparr>"

definition newRecorder :: recorder where
  "newRecorder = \<lparr> rstate = Recording, stopQueued = False, tracksLive = True \<rparr>"

text \<open>\<open>startRecording\<close> after its \<open>await\<close>. With a stream: a recorder is constructed and
  stored in the reference, the fragments are reset, the error is cleared, the handlers are
  installed, the recorder is started and the flag is set (lines 103 to 142). With a
  rejection: the \<open>catch\<close> of lines 143 to 146.\<close>

definition startRecording_resume :: "mic_outcome \<Rightarrow> session \<Rightarrow> session" where
  "startRecording_resume outcome s =
     (case outcome of
        Denied \<Rightarrow>
          s\<lparr> error := Some ''Unable to access microphone. Please check your permissions.'' \<rparr>
      | Granted \<Rightarrow>
          s\<lparr> recorders := recorders s @ [newRecorder],
             mediaRecorderRef := Some (length (recorders s)),
             audioChunksRef := [],
             error := None,
             isRecording := True \<rparr>)"

definition ondataavailable :: "string \<Rightarrow> session \<Rightarrow> session" where
  "ondataavailable chunk s =
     (if length chunk > 0 then s\<lparr> audioChunksRef := audioChunksRef s @ [chunk] \<rparr> else s)"

text \<open>\<open>MediaRecorder.stop()\<close> makes a recording recorder inactive and queues its \<open>stop\<close>
  event; on an inactive recorder it does nothing. The tracks of its stream are stopped next
  (line 153).\<close>

definition stop_recorder :: "recorder \<Rightarrow> recorder" where
  "stop_recorder r =
     (if rstate r = Recording then r\<lparr> rstate := Inactive, stopQueued := True \<rparr> else r)
       \<lparr> tracksLive := False \<rparr>"

definition stopRecording :: "session \<Rightarrow> session" where
  "stopRecording s =
     (case mediaRecorderRef s of
        None \<Rightarrow> s
      | Some rid \<Rightarrow>
          if isRecording s
          then s\<lparr> recorders := (recorders s)[rid := stop_recorder (recorders s ! rid)],
                  isRecording := False \<rparr>
          else s)"

subsection \<open>The pipeline: the \<open>onstop\<close> handler (lines 116 to 139)\<close>

definition processingError :: string where
  "processingError = ''Sorry, there was an error processing your request. Please try again.''"

definition onstop_catch :: "session \<Rightarrow> session" where
  "onstop_catch s = s\<lparr> error := Some processingError, isPlaying := False \<rparr>"

definition onstop_finally :: "session \<Rightarrow> session" where
  "onstop_finally s = s\<lparr> isProcessing := False \<rparr>"

definition finish :: "nat \<Rightarrow> session \<Rightarrow> session" where
  "finish pid s = s\<lparr> pipelines := (pipelines s)[pid := Finished] \<rparr>"

text \<open>From the \<open>stop\<close> event to the request of \<open>convertSpeechToText\<close>: the flag is set, the
  fragments are joined into one blob, the request is sent.\<close>

definition onstop_begin :: "session \<Rightarrow> session" where
  "onstop_begin s =
     s\<lparr> isProcessing := True,
        sttRequests := sttRequests s @ [requestBody (concat (audioChunksRef s))],
        pipelines := pipelines s @ [AwaitingTranscript] \<rparr>"

text \<open>From the answer of the speech endpoint to the request of \<open>getGeminiResponse\<close>, or to
  the \<open>catch\<close> and \<open>finally\<close> when \<open>convertSpeechToText\<close> throws or the text is falsy.\<close>

definition onstop_transcribed :: "nat \<Rightarrow> stt_response fetch_result \<Rightarrow> session \<Rightarrow> session" where
  "onstop_transcribed pid response s =
     (case convertSpeechToText response of
        Inl _ \<Rightarrow> finish pid (onstop_finally (onstop_catch s))
      | Inr t \<Rightarrow>
          if t = '''' then finish pid (onstop_finally (onstop_catch s))
          else s\<lparr> geminiCalls := geminiCalls s @ [t],
                  pipelines := (pipelines s)[pid := AwaitingReply] \<rparr>)"

text \<open>From the answer of the language endpoint to the end of the handler.\<close>

definition onstop_replied :: "nat \<Rightarrow> gemini_response fetch_result \<Rightarrow> session \<Rightarrow> session" where
  "onstop_replied pid response s =
     (case getGeminiResponse response of
        Inl _ \<Rightarrow> finish pid (onstop_finally (onstop_catch s))
      | Inr aiResponse \<Rightarrow>
          finish pid (onstop_finally (speak aiResponse (s\<lparr> isPlaying := True \<rparr>))))"

subsection \<open>The trigger action (lines 172 to 180)\<close>

definition handleButtonClick :: "session \<Rightarrow> session" where
  "handleButtonClick s =
     (if isPlaying s then stopSpeaking s
      else if isRecording s then stopRecording s
      else startRecording s)"

subsection \<open>The event loop\<close>

datatype event =
    Click
  | MicResolved mic_outcome
  | DataAvailable nat string
  | Stopped nat
  | Transcribed nat "stt_response fetch_result"
  | Replied nat "gemini_response fetch_result"
  | UtteranceEnd
  | UtteranceError
  | UtteranceCancelled

text \<open>One event, delivered when the browser can deliver it: a microphone answer needs a
  pending request, a fragment needs a recorder that records or is about to fire \<open>stop\<close>,
  a \<open>stop\<close> event needs a recorder that was stopped, an answer needs the run that waits for
  it, an utterance callback needs a queued utterance, the error event of a cancelled
  utterance needs an utterance that \<open>cancel()\<close> removed. \<open>None\<close> is an event that cannot
  happen in this state.\<close>

fun step :: "event \<Rightarrow> session \<Rightarrow> session option" where
  "step Click s = Some (handleButtonClick s)"
| "step (MicResolved outcome) s =
     (if pendingMic s = 0 then None
      else Some (startRecording_resume outcome (s\<lparr> pendingMic := pendingMic s - 1 \<rparr>)))"
| "step (DataAvailable rid chunk) s =
     (if rid < length (recorders s)
         \<and> (rstate (recorders s ! rid) = Recording \<or> stopQueued (recorders s ! rid))
      then Some (ondataavailable chunk s) else None)"
| "step (Stopped rid) s =
     (if rid < length (recorders s) \<and> stopQueued (recorders s ! rid)
      then Some (onstop_begin
                  (s\<lparr> recorders := (recorders s)[rid := (recorders s ! rid)\<lparr> stopQueued := False \<rparr>] \<rparr>))
      else None)"
| "step (Transcribed pid response) s =
     (if pid < length (pipelines s) \<and> pipelines s ! pid = AwaitingTranscript
      then Some (onstop_transcribed pid response s) else None)"
| "step (Replied pid response) s =
     (if pid < length (pipelines s) \<and> pipelines s ! pid = AwaitingReply
      then Some (onstop_replied pid response s) else None)"
| "step UtteranceEnd s =
     (case synthQueue s of
        [] \<Rightarrow> None
      | _ # queue \<Rightarrow> Some (utterance_onend (s\<lparr> synthQueue := queue \<rparr>)))"
| "step UtteranceError s =
     (case synthQueue s of
        [] \<Rightarrow> None
      | _ # queue \<Rightarrow> Some (utterance_onerror (s\<lparr> synthQueue := queue \<rparr>)))"
| "step UtteranceCancelled s =
     (if cancelledUtterances s = 0 then None
      else Some (utterance_onerror (s\<lparr> cancelledUtterances := cancelledUtterances s - 1 \<rparr>)))"

fun run :: "session \<Rightarrow> event list \<Rightarrow> session option" where
  "run s [] = Some s"
| "run s (e # es) = (case step e s of None \<Rightarrow> None | Some s' \<Rightarrow> run s' es)"

text \<open>The phases of the session as the three flags show them.\<close>

definition idle :: "session \<Rightarrow> bool" where
  "idle s = (\<not> isRecording s \<and> \<not> isProcessing s \<and> \<not> isPlaying s)"

definition flagsSet :: "session \<Rightarrow> nat" where
  "flagsSet s = length (filter id [isRecording s, isProcessing s, isPlaying s])"

subsection \<open>Invariants of the event loop\<close>

text \<open>No call recorded so far carries an empty text.\<close>

definition calls_nonempty :: "session \<Rightarrow> bool" where
  "calls_nonempty s = ([] \<notin> set (geminiCalls s) \<and> [] \<notin> set (speakCalls s))"

text \<open>While the flag \<open>isRecording\<close> is set, the reference holds a recorder that records.\<close>

definition current_recorder_ok :: "session \<Rightarrow> bool" where
  "current_recorder_ok s =
     (case mediaRecorderRef s of
        None \<Rightarrow> \<not> isRecording s
      | Some rid \<Rightarrow> rid < length (recorders s)
          \<and> (isRecording s \<longrightarrow> rstate (recorders s ! rid) = Recording))"

subsection \<open>Sample sessions and responses\<close>

definition speakingState :: session where
  "speakingState = initial\<lparr> isPlaying := True, synthQueue := [''Hi there''] \<rparr>"

definition recordingTrace :: "event list" where
  "recordingTrace = [Click, MicResolved Granted]"

definition recordingState :: session where
  "recordingState = initial\<lparr> isRecording := True, mediaRecorderRef := Some 0,
     recorders := [newRecorder] \<rparr>"

text \<open>A recording was stopped and its \<open>stop\<close> event is due, no fragment was delivered.\<close>

definition stoppedState :: session where
  "stoppedState = initial\<lparr> mediaRecorderRef := Some 0,
     recorders := [\<lparr> rstate = Inactive, stopQueued = True, tracksLive = False \<rparr>] \<rparr>"

text \<open>Processing: the run 0 waits for the speech endpoint, or for the language endpoint.\<close>

definition transcribingState :: session where
  "transcribingState = initial\<lparr> isProcessing := True, mediaRecorderRef := Some 0,
     recorders := [\<lparr> rstate = Inactive, stopQueued = False, tracksLive = False \<rparr>],
     pipelines := [AwaitingTranscript], sttRequests := [requestBody []] \<rparr>"

definition replyingState :: session where
  "replyingState = transcribingState\<lparr> pipelines := [AwaitingReply], geminiCalls := [''hello''] \<rparr>"

definition sttHello :: "stt_response fetch_result" where
  "sttHello = Ok \<lparr> results = Some [\<lparr> alternatives = Some [\<lparr> transcript = Some ''hello'' \<rparr>] \<rparr>] \<rparr>"

definition sttNoResults :: "stt_response fetch_result" where
  "sttNoResults = Ok \<lparr> results = Some [] \<rparr>"

definition sttSilence :: "stt_response fetch_result" where
  "sttSilence = Ok \<lparr> results = Some [\<lparr> alternatives = Some [\<lparr> transcript = None \<rparr>] \<rparr>] \<rparr>"

definition geminiNoCandidates :: "gemini_response fetch_result" where
  "geminiNoCandidates = Ok \<lparr> candidates = None \<rparr>"

definition geminiHi :: "gemini_response fetch_result" where
  "geminiHi = Ok \<lparr> candidates = Some [\<lparr> content = Some \<lparr> parts = Some [\<lparr> part_text = Some ''Hi there'' \<rparr>] \<rparr> \<rparr>] \<rparr>"

definition processingTrace :: "event list" where
  "processingTrace = [Click, MicResolved Granted, Click, Stopped 0]"

definition helloTrace :: "event list" where
  "helloTrace = [Click, MicResolved Granted, Click, Stopped 0, Transcribed 0 sttHello]"

definition hiTrace :: "event list" where
  "hiTrace = [Click, MicResolved Granted, Click, Stopped 0, Transcribed 0 sttHello,
     Replied 0 geminiHi]"

text \<open>A recording is started while the first one is still processed.\<close>

definition overlapTrace :: "event list" where
  "overlapTrace = [Click, MicResolved Granted, Click, Stopped 0, Click, MicResolved Granted]"

definition overlapFailureTrace :: "event list" where
  "overlapFailureTrace = [Click, MicResolved Granted, Click, Stopped 0, Click,
     MicResolved Granted, Transcribed 0 sttNoResults]"

definition overlapSpeakingTrace :: "event list" where
  "overlapSpeakingTrace = [Click, MicResolved Granted, Click, Stopped 0, Click,
     MicResolved Granted, Transcribed 0 sttHello, Replied 0 geminiHi]"

definition overlapCancelTrace :: "event list" where
  "overlapCancelTrace = [Click, MicResolved Granted, Click, Stopped 0, Click,
     MicResolved Granted, Transcribed 0 sttHello, Replied 0 geminiHi, Click]"

text \<open>One run up to playback, the trigger action that cancels it, and the error event the
  engine raises for the cancelled utterance.\<close>

definition cancelTrace :: "event list" where
  "cancelTrace = [Click, MicResolved Granted, Click, Stopped 0, Transcribed 0 sttHello,
     Replied 0 geminiHi, Click]"

definition cancelErrorTrace :: "event list" where
  "cancelErrorTrace = [Click, MicResolved Granted, Click, Stopped 0, Transcribed 0 sttHello,
     Replied 0 geminiHi, Click, UtteranceCancelled]"

definition erroredState :: session where
  "erroredState = initial\<lparr> error := Some processingError \<rparr>"

section \<open>Properties\<close>

subsection \<open>Auxiliary facts\<close>

lemma binaryString_id: "binaryString buffer = buffer"
  unfolding binaryString_def by (induction buffer rule: rev_induct) simp_all

lemma empty_payload_content: "audio_content (requestBody []) = []"
  by (simp add: requestBody_def binaryString_id)

lemma convertSpeechToText_cases:
  "convertSpeechToText response = Inl (Error ''Failed to convert speech to text'')
   \<or> (\<exists>t. convertSpeechToText response = Inr t)"
  unfolding convertSpeechToText_def by (cases "convertSpeechToText_try response") simp_all

lemma convertSpeechToText_Inr_iff:
  "convertSpeechToText response = Inr t \<longleftrightarrow>
     (\<exists>data r rs a as. response = Ok data \<and> results data = Some (r # rs)
        \<and> alternatives r = Some (a # as)
        \<and> t = (case transcript a of None \<Rightarrow> [] | Some u \<Rightarrow> u))"
  unfolding convertSpeechToText_def convertSpeechToText_try_def
  by (auto split: fetch_result.splits option.splits list.splits)

lemma fallbackText_nonempty: "fallbackText \<noteq> []"
  by (simp add: fallbackText_def)

lemma getGeminiResponse_Inr_nonempty: "getGeminiResponse response = Inr t \<Longrightarrow> t \<noteq> []"
  unfolding getGeminiResponse_def getGeminiResponse_try_def
  by (auto simp: fallbackText_nonempty split: fetch_result.splits option.splits if_splits)

lemma handleButtonClick_calls:
  "geminiCalls (handleButtonClick s) = geminiCalls s \<and> speakCalls (handleButtonClick s) = speakCalls s"
  by (simp add: handleButtonClick_def stopSpeaking_def stopRecording_def startRecording_def
      split: option.splits)

lemma onstop_transcribed_calls:
  "calls_nonempty s \<Longrightarrow> calls_nonempty (onstop_transcribed pid response s)"
  by (cases "convertSpeechToText response")
     (simp_all add: calls_nonempty_def onstop_transcribed_def finish_def onstop_finally_def
        onstop_catch_def)

lemma onstop_replied_calls:
  "calls_nonempty s \<Longrightarrow> calls_nonempty (onstop_replied pid response s)"
  by (cases "getGeminiResponse response")
     (auto simp: calls_nonempty_def onstop_replied_def finish_def onstop_finally_def
        onstop_catch_def speak_def dest: getGeminiResponse_Inr_nonempty)

lemma step_calls_nonempty:
  "step e s = Some s' \<Longrightarrow> calls_nonempty s \<Longrightarrow> calls_nonempty s'"
proof (cases e)
  case Click
  assume "step e s = Some s'" "calls_nonempty s"
  with Click show ?thesis by (auto simp: calls_nonempty_def handleButtonClick_calls)
next
  case (MicResolved outcome)
  assume "step e s = Some s'" "calls_nonempty s"
  with MicResolved show ?thesis
    by (cases outcome) (auto simp: calls_nonempty_def startRecording_resume_def split: if_splits)
next
  case (DataAvailable rid chunk)
  assume "step e s = Some s'" "calls_nonempty s"
  with DataAvailable show ?thesis
    by (auto simp: calls_nonempty_def ondataavailable_def split: if_splits)
next
  case (Stopped rid)
  assume "step e s = Some s'" "calls_nonempty s"
  with Stopped show ?thesis
    by (auto simp: calls_nonempty_def onstop_begin_def split: if_splits)
next
  case (Transcribed pid response)
  assume "step e s = Some s'" "calls_nonempty s"
  with Transcribed show ?thesis
    by (auto simp: onstop_transcribed_calls split: if_splits)
next
  case (Replied pid response)
  assume "step e s = Some s'" "calls_nonempty s"
  with Replied show ?thesis
    by (auto simp: onstop_replied_calls split: if_splits)
next
  case UtteranceEnd
  assume "step e s = Some s'" "calls_nonempty s"
  with UtteranceEnd show ?thesis
    by (auto simp: calls_nonempty_def utterance_onend_def split: list.splits)
next
  case UtteranceError
  assume "step e s = Some s'" "calls_nonempty s"
  with UtteranceError show ?thesis
    by (auto simp: calls_nonempty_def utterance_onerror_def split: list.splits)
next
  case UtteranceCancelled
  assume "step e s = Some s'" "calls_nonempty s"
  with UtteranceCancelled show ?thesis
    by (auto simp: calls_nonempty_def utterance_onerror_def split: if_splits)
qed

lemma run_calls_nonempty:
  "run s es = Some s' \<Longrightarrow> calls_nonempty s \<Longrightarrow> calls_nonempty s'"
proof (induction es arbitrary: s)
  case Nil
  then show ?case by simp
next
  case (Cons e es)
  then obtain s1 where s1: "step e s = Some s1" and rest: "run s1 es = Some s'"
    by (auto split: option.splits)
  from s1 Cons.prems(2) have "calls_nonempty s1" by (rule step_calls_nonempty)
  with rest show ?case by (rule Cons.IH)
qed

lemma initial_calls_nonempty: "calls_nonempty initial"
  by (simp add: calls_nonempty_def initial_def)

lemma step_current_recorder_ok:
  "step e s = Some s' \<Longrightarrow> current_recorder_ok s \<Longrightarrow> current_recorder_ok s'"
proof (cases e)
  case Click
  assume "step e s = Some s'" "current_recorder_ok s"
  with Click show ?thesis
    by (auto simp: current_recorder_ok_def handleButtonClick_def stopSpeaking_def
        stopRecording_def startRecording_def split: option.splits if_splits)
next
  case (MicResolved outcome)
  assume "step e s = Some s'" "current_recorder_ok s"
  with MicResolved show ?thesis
    by (cases outcome)
       (auto simp: current_recorder_ok_def startRecording_resume_def newRecorder_def
          nth_append split: option.splits if_splits)
next
  case (DataAvailable rid chunk)
  assume "step e s = Some s'" "current_recorder_ok s"
  with DataAvailable show ?thesis
    by (auto simp: current_recorder_ok_def ondataavailable_def split: option.splits if_splits)
next
  case (Stopped rid)
  assume "step e s = Some s'" "current_recorder_ok s"
  with Stopped show ?thesis
    by (auto simp: current_recorder_ok_def onstop_begin_def nth_list_update
        split: option.splits if_splits)
next
  case (Transcribed pid response)
  assume "step e s = Some s'" "current_recorder_ok s"
  with Transcribed show ?thesis
    by (cases "convertSpeechToText response")
       (auto simp: current_recorder_ok_def onstop_transcribed_def finish_def
          onstop_finally_def onstop_catch_def split: option.splits if_splits)
next
  case (Replied pid response)
  assume "step e s = Some s'" "current_recorder_ok s"
  with Replied show ?thesis
    by (cases "getGeminiResponse response")
       (auto simp: current_recorder_ok_def onstop_replied_def finish_def onstop_finally_def
          onstop_catch_def speak_def split: option.splits if_splits)
next
  case UtteranceEnd
  assume "step e s = Some s'" "current_recorder_ok s"
  with UtteranceEnd show ?thesis
    by (auto simp: current_recorder_ok_def utterance_onend_def split: option.splits list.splits)
next
  case UtteranceError
  assume "step e s = Some s'" "current_recorder_ok s"
  with UtteranceError show ?thesis
    by (auto simp: current_recorder_ok_def utterance_onerror_def split: option.splits list.splits)
next
  case UtteranceCancelled
  assume "step e s = Some s'" "current_recorder_ok s"
  with UtteranceCancelled show ?thesis
    by (auto simp: current_recorder_ok_def utterance_onerror_def split: option.splits if_splits)
qed

lemma run_current_recorder_ok:
  "run s es = Some s' \<Longrightarrow> current_recorder_ok s \<Longrightarrow> current_recorder_ok s'"
proof (induction es arbitrary: s)
  case Nil
  then show ?case by simp
next
  case (Cons e es)
  then obtain s1 where s1: "step e s = Some s1" and rest: "run s1 es = Some s'"
    by (auto split: option.splits)
  from s1 Cons.prems(2) have "current_recorder_ok s1" by (rule step_current_recorder_ok)
  with rest show ?case by (rule Cons.IH)
qed

lemma initial_current_recorder_ok: "current_recorder_ok initial"
  by (simp add: current_recorder_ok_def initial_def)

text \<open>Sample event sequences and where they lead.\<close>

lemma run_recordingTrace: "run initial recordingTrace = Some recordingState"
  by (simp add: recordingTrace_def recordingState_def initial_def handleButtonClick_def
      startRecording_def startRecording_resume_def)

lemma run_processingTrace: "run initial processingTrace = Some transcribingState"
  by (simp add: processingTrace_def transcribingState_def initial_def handleButtonClick_def
      startRecording_def startRecording_resume_def stopRecording_def stop_recorder_def
      newRecorder_def onstop_begin_def)

lemma sttHello_text: "convertSpeechToText sttHello = Inr ''hello''"
  by (simp add: sttHello_def convertSpeechToText_def convertSpeechToText_try_def)

lemma step_sttHello: "step (Transcribed 0 sttHello) transcribingState = Some replyingState"
  by (simp add: onstop_transcribed_def sttHello_text)
     (simp add: transcribingState_def replyingState_def initial_def)

lemma run_append:
  "run s (es @ fs) = (case run s es of None \<Rightarrow> None | Some s' \<Rightarrow> run s' fs)"
  by (induction es arbitrary: s) (simp_all split: option.splits)

lemma run_helloTrace: "run initial helloTrace = Some replyingState"
proof -
  have e: "helloTrace = processingTrace @ [Transcribed 0 sttHello]"
    by (simp add: helloTrace_def processingTrace_def)
  show ?thesis
    by (subst e) (simp add: run_append run_processingTrace step_sttHello del: step.simps)
qed

lemma geminiHi_text: "getGeminiResponse geminiHi = Inr ''Hi there''"
  by (simp add: geminiHi_def getGeminiResponse_def getGeminiResponse_try_def
      firstCandidateText_def)

lemma run_hiTrace:
  "run initial hiTrace
     = Some (replyingState\<lparr> isPlaying := True, isProcessing := False, pipelines := [Finished],
          synthQueue := [''Hi there''], speakCalls := [''Hi there''] \<rparr>)"
proof -
  have e: "hiTrace = helloTrace @ [Replied 0 geminiHi]"
    by (simp add: hiTrace_def helloTrace_def)
  have "step (Replied 0 geminiHi) replyingState
     = Some (replyingState\<lparr> isPlaying := True, isProcessing := False, pipelines := [Finished],
          synthQueue := [''Hi there''], speakCalls := [''Hi there''] \<rparr>)"
    by (simp add: onstop_replied_def geminiHi_text finish_def onstop_finally_def speak_def)
       (simp add: replyingState_def transcribingState_def initial_def)
  then show ?thesis
    by (subst e) (simp add: run_append run_helloTrace del: step.simps)
qed

text \<open>What the handler does with an answer of the speech endpoint: with a non-empty
  transcript it calls the response client and sets nothing else, with anything else it ends
  in the error path.\<close>

lemma convertSpeechToText_transcript:
  assumes "results data = Some (r # rs)" and "alternatives r = Some (a # as)"
    and "transcript a = Some t"
  shows "convertSpeechToText (Ok data) = Inr t"
  using assms by (simp add: convertSpeechToText_def convertSpeechToText_try_def)

lemma convertSpeechToText_no_transcript:
  assumes "\<not> (\<exists>data r rs a as t. response = Ok data \<and> results data = Some (r # rs)
             \<and> alternatives r = Some (a # as) \<and> transcript a = Some t \<and> t \<noteq> [])"
  shows "convertSpeechToText response = Inl (Error ''Failed to convert speech to text'')
      \<or> convertSpeechToText response = Inr []"
proof (cases "convertSpeechToText response")
  case (Inl e)
  with convertSpeechToText_cases [of response] show ?thesis by auto
next
  case (Inr t)
  then obtain data r rs a as where sh: "response = Ok data" "results data = Some (r # rs)"
    "alternatives r = Some (a # as)" "t = (case transcript a of None \<Rightarrow> [] | Some u \<Rightarrow> u)"
    unfolding convertSpeechToText_Inr_iff by blast
  have "t = []"
  proof (cases "transcript a")
    case None
    with sh(4) show ?thesis by simp
  next
    case (Some u)
    with sh(4) have "transcript a = Some t" by simp
    with assms sh(1,2,3) show ?thesis by blast
  qed
  with Inr show ?thesis by simp
qed

lemma onstop_transcribed_text:
  assumes "convertSpeechToText response = Inr t" and "t \<noteq> []"
  shows "onstop_transcribed pid response s
      = s\<lparr> geminiCalls := geminiCalls s @ [t], pipelines := (pipelines s)[pid := AwaitingReply] \<rparr>"
  using assms by (simp add: onstop_transcribed_def)

lemma onstop_transcribed_failure:
  assumes "convertSpeechToText response = Inl e \<or> convertSpeechToText response = Inr []"
  shows "onstop_transcribed pid response s = finish pid (onstop_finally (onstop_catch s))"
  using assms by (auto simp: onstop_transcribed_def)

subsection \<open>C1: the three flags under arbitrary event sequences\<close>

text \<open>
  C1. The claim: for every sequence of trigger actions and completion callbacks at most one
  of the recording, processing and speaking flags is set, and a trigger action delivered
  during processing never starts a recording. The code: \<open>handleButtonClick\<close> tests
  \<open>isPlaying\<close> and \<open>isRecording\<close> only. After record, stop and the \<open>stop\<close> event the
  session shows processing alone; one more trigger action requests the microphone, and once
  the stream is granted the recording flag is set while the processing flag is still set.
\<close>

theorem trigger_during_processing_starts_recording:
  "map_option (\<lambda>s. (isRecording s, isProcessing s, isPlaying s))
     (run initial [Click, MicResolved Granted, Click, Stopped 0]) = Some (False, True, False)
   \<and> map_option (\<lambda>s. (isRecording s, isProcessing s, isPlaying s, flagsSet s))
     (run initial [Click, MicResolved Granted, Click, Stopped 0, Click, MicResolved Granted])
       = Some (True, True, False, 2)"
  by (simp add: initial_def handleButtonClick_def startRecording_def startRecording_resume_def
      stopRecording_def stop_recorder_def newRecorder_def onstop_begin_def flagsSet_def)

subsection \<open>C2: the trigger action\<close>

text \<open>
  C2. In every state one trigger action does exactly one thing, chosen in this order: with
  the speaking flag set it cancels playback (the speech queue is emptied, the flag cleared,
  no recorder touched, no microphone requested); otherwise with the recording flag set it
  stops the recording (nothing is cancelled or requested, and when the reference holds a
  recorder, as it does in every reachable state, that recorder is stopped and the flag
  cleared); otherwise it starts a recording by requesting the microphone.
\<close>

theorem handleButtonClick_priority:
  "(isPlaying s \<longrightarrow>
      handleButtonClick s = stopSpeaking s
      \<and> synthQueue (handleButtonClick s) = [] \<and> \<not> isPlaying (handleButtonClick s)
      \<and> recorders (handleButtonClick s) = recorders s
      \<and> isRecording (handleButtonClick s) = isRecording s
      \<and> pendingMic (handleButtonClick s) = pendingMic s)
   \<and> (\<not> isPlaying s \<and> isRecording s \<longrightarrow>
      handleButtonClick s = stopRecording s
      \<and> synthQueue (handleButtonClick s) = synthQueue s
      \<and> pendingMic (handleButtonClick s) = pendingMic s
      \<and> (run initial es = Some s \<longrightarrow>
           (\<exists>rid. mediaRecorderRef s = Some rid
              \<and> rstate (recorders (handleButtonClick s) ! rid) = Inactive
              \<and> stopQueued (recorders (handleButtonClick s) ! rid)
              \<and> \<not> tracksLive (recorders (handleButtonClick s) ! rid)
              \<and> \<not> isRecording (handleButtonClick s))))
   \<and> (\<not> isPlaying s \<and> \<not> isRecording s \<longrightarrow>
      handleButtonClick s = startRecording s
      \<and> pendingMic (handleButtonClick s) = Suc (pendingMic s)
      \<and> synthQueue (handleButtonClick s) = synthQueue s
      \<and> recorders (handleButtonClick s) = recorders s
      \<and> \<not> isRecording (handleButtonClick s))"
proof (intro conjI impI)
  assume run: "run initial es = Some s" and flags: "\<not> isPlaying s \<and> isRecording s"
  from run have "current_recorder_ok s"
    using initial_current_recorder_ok by (rule run_current_recorder_ok)
  with flags obtain rid where rid: "mediaRecorderRef s = Some rid" "rid < length (recorders s)"
    "rstate (recorders s ! rid) = Recording"
    by (auto simp: current_recorder_ok_def split: option.splits)
  with flags show "\<exists>rid. mediaRecorderRef s = Some rid
      \<and> rstate (recorders (handleButtonClick s) ! rid) = Inactive
      \<and> stopQueued (recorders (handleButtonClick s) ! rid)
      \<and> \<not> tracksLive (recorders (handleButtonClick s) ! rid)
      \<and> \<not> isRecording (handleButtonClick s)"
    by (simp add: handleButtonClick_def stopRecording_def stop_recorder_def)
qed (simp_all add: handleButtonClick_def stopSpeaking_def stopRecording_def startRecording_def
       split: option.splits)

theorem handleButtonClick_priority_witness:
  "isPlaying speakingState
   \<and> handleButtonClick speakingState = initial\<lparr> cancelledUtterances := 1 \<rparr>
   \<and> \<not> isPlaying recordingState \<and> isRecording recordingState
   \<and> run initial recordingTrace = Some recordingState
   \<and> mediaRecorderRef recordingState = Some 0
   \<and> rstate (recorders (handleButtonClick recordingState) ! 0) = Inactive
   \<and> stopQueued (recorders (handleButtonClick recordingState) ! 0)
   \<and> \<not> isRecording (handleButtonClick recordingState)
   \<and> \<not> isPlaying initial \<and> \<not> isRecording initial
   \<and> handleButtonClick initial = initial\<lparr> pendingMic := 1 \<rparr>"
proof -
  have a: "isPlaying speakingState" by (simp add: speakingState_def)
  have b: "\<not> isPlaying recordingState \<and> isRecording recordingState"
    by (simp add: recordingState_def initial_def)
  have c: "\<not> isPlaying initial \<and> \<not> isRecording initial" by (simp add: initial_def)
  have r: "mediaRecorderRef recordingState = Some 0" by (simp add: recordingState_def)
  from a handleButtonClick_priority [of speakingState]
  have "handleButtonClick speakingState = stopSpeaking speakingState" by blast
  then have 1: "handleButtonClick speakingState = initial\<lparr> cancelledUtterances := 1 \<rparr>"
    by (simp add: stopSpeaking_def speakingState_def initial_def)
  from b run_recordingTrace handleButtonClick_priority [of recordingState recordingTrace]
  have "\<exists>rid. mediaRecorderRef recordingState = Some rid
          \<and> rstate (recorders (handleButtonClick recordingState) ! rid) = Inactive
          \<and> stopQueued (recorders (handleButtonClick recordingState) ! rid)
          \<and> \<not> tracksLive (recorders (handleButtonClick recordingState) ! rid)
          \<and> \<not> isRecording (handleButtonClick recordingState)" by blast
  with r have 2: "rstate (recorders (handleButtonClick recordingState) ! 0) = Inactive
          \<and> stopQueued (recorders (handleButtonClick recordingState) ! 0)
          \<and> \<not> isRecording (handleButtonClick recordingState)" by auto
  from c handleButtonClick_priority [of initial]
  have "handleButtonClick initial = startRecording initial" by blast
  then have 3: "handleButtonClick initial = initial\<lparr> pendingMic := 1 \<rparr>"
    by (simp add: startRecording_def initial_def)
  from a b c r 1 2 3 run_recordingTrace show ?thesis by simp
qed

subsection \<open>C3: the transcription client on a success status\<close>

text \<open>
  C3. On a success status, when the result set is absent or empty \<open>convertSpeechToText\<close>
  fails (it returns no string at all, so no empty string); when there is a first result with
  a first alternative it returns that alternative's transcript, and the empty string when the
  alternative has no transcript. A first result without a first alternative is a failure too.
\<close>

theorem convertSpeechToText_results:
  "(results data = None \<or> results data = Some [] \<longrightarrow>
      convertSpeechToText (Ok data) = Inl (Error ''Failed to convert speech to text'')
      \<and> convertSpeechToText (Ok data) \<noteq> Inr [])
   \<and> (results data = Some (r # rs) \<and> alternatives r = Some (a # as) \<and> transcript a = Some t \<longrightarrow>
      convertSpeechToText (Ok data) = Inr t)
   \<and> (results data = Some (r # rs) \<and> alternatives r = Some (a # as) \<and> transcript a = None \<longrightarrow>
      convertSpeechToText (Ok data) = Inr [])
   \<and> (results data = Some (r # rs) \<and> (alternatives r = None \<or> alternatives r = Some []) \<longrightarrow>
      convertSpeechToText (Ok data) = Inl (Error ''Failed to convert speech to text''))"
  by (auto simp: convertSpeechToText_def convertSpeechToText_try_def)

theorem convertSpeechToText_results_witness:
  "results \<lparr> results = Some [] \<rparr> = Some []
   \<and> convertSpeechToText sttNoResults = Inl (Error ''Failed to convert speech to text'')
   \<and> results \<lparr> results = None \<rparr> = None
   \<and> convertSpeechToText (Ok \<lparr> results = None \<rparr>) = Inl (Error ''Failed to convert speech to text'')
   \<and> convertSpeechToText sttHello = Inr ''hello''
   \<and> convertSpeechToText sttSilence = Inr []
   \<and> convertSpeechToText (Ok \<lparr> results = Some [\<lparr> alternatives = Some [] \<rparr>] \<rparr>)
        = Inl (Error ''Failed to convert speech to text'')"
proof -
  have 1: "convertSpeechToText sttNoResults = Inl (Error ''Failed to convert speech to text'')"
    using convertSpeechToText_results [of "\<lparr> results = Some [] \<rparr>"]
    by (simp add: sttNoResults_def)
  have 2: "convertSpeechToText (Ok \<lparr> results = None \<rparr>)
             = Inl (Error ''Failed to convert speech to text'')"
    using convertSpeechToText_results [of "\<lparr> results = None \<rparr>"] by simp
  have 3: "convertSpeechToText sttHello = Inr ''hello''"
    using convertSpeechToText_results
      [of "\<lparr> results = Some [\<lparr> alternatives = Some [\<lparr> transcript = Some ''hello'' \<rparr>] \<rparr>] \<rparr>"
          "\<lparr> alternatives = Some [\<lparr> transcript = Some ''hello'' \<rparr>] \<rparr>" "[]"
          "\<lparr> transcript = Some ''hello'' \<rparr>" "[]" "''hello''"]
    by (simp add: sttHello_def)
  have 4: "convertSpeechToText sttSilence = Inr []"
    using convertSpeechToText_results
      [of "\<lparr> results = Some [\<lparr> alternatives = Some [\<lparr> transcript = None \<rparr>] \<rparr>] \<rparr>"
          "\<lparr> alternatives = Some [\<lparr> transcript = None \<rparr>] \<rparr>" "[]"
          "\<lparr> transcript = None \<rparr>" "[]"]
    by (simp add: sttSilence_def)
  have 5: "convertSpeechToText (Ok \<lparr> results = Some [\<lparr> alternatives = Some [] \<rparr>] \<rparr>)
             = Inl (Error ''Failed to convert speech to text'')"
    using convertSpeechToText_results
      [of "\<lparr> results = Some [\<lparr> alternatives = Some [] \<rparr>] \<rparr>" "\<lparr> alternatives = Some [] \<rparr>" "[]"]
    by simp
  from 1 2 3 4 5 show ?thesis by simp
qed

subsection \<open>C4: the fallback text of the response client\<close>

text \<open>
  C4. On a success status whose first candidate has no first text part, or an empty one,
  \<open>getGeminiResponse\<close> returns the fallback text. The run that waits for this answer then
  sets the speaking flag, hands the fallback text to the speech output, clears the processing
  flag and leaves the error as it was; with no recording going on the session shows speaking
  alone.
\<close>

theorem gemini_fallback_reaches_speaking:
  assumes absent: "firstCandidateText data = None \<or> firstCandidateText data = Some []"
    and waiting: "pid < length (pipelines s)" "pipelines s ! pid = AwaitingReply"
  shows "getGeminiResponse (Ok data) = Inr fallbackText
    \<and> (\<exists>s'. step (Replied pid (Ok data)) s = Some s'
          \<and> isPlaying s' \<and> \<not> isProcessing s' \<and> isRecording s' = isRecording s
          \<and> error s' = error s
          \<and> synthQueue s' = synthQueue s @ [fallbackText]
          \<and> speakCalls s' = speakCalls s @ [fallbackText]
          \<and> pipelines s' ! pid = Finished)"
proof -
  from absent have g: "getGeminiResponse (Ok data) = Inr fallbackText"
    by (auto simp: getGeminiResponse_def getGeminiResponse_try_def)
  with waiting show ?thesis
    by (simp add: onstop_replied_def finish_def onstop_finally_def speak_def)
qed

theorem gemini_fallback_reaches_speaking_witness:
  "firstCandidateText \<lparr> candidates = None \<rparr> = None
   \<and> (0::nat) < length (pipelines replyingState) \<and> pipelines replyingState ! 0 = AwaitingReply
   \<and> getGeminiResponse geminiNoCandidates = Inr ''Sorry, I could not generate a response.''
   \<and> (\<exists>s'. step (Replied 0 geminiNoCandidates) replyingState = Some s'
         \<and> isPlaying s' \<and> \<not> isProcessing s' \<and> \<not> isRecording s' \<and> error s' = None
         \<and> synthQueue s' = [''Sorry, I could not generate a response.''])"
proof -
  have a: "firstCandidateText \<lparr> candidates = None \<rparr> = None"
    by (simp add: firstCandidateText_def)
  have w: "(0::nat) < length (pipelines replyingState)" "pipelines replyingState ! 0 = AwaitingReply"
    by (simp_all add: replyingState_def transcribingState_def initial_def)
  have f: "isRecording replyingState = False" "error replyingState = None"
    "synthQueue replyingState = []"
    by (simp_all add: replyingState_def transcribingState_def initial_def)
  from a have "firstCandidateText \<lparr> candidates = None \<rparr> = None
      \<or> firstCandidateText \<lparr> candidates = None \<rparr> = Some []" by simp
  from gemini_fallback_reaches_speaking [OF this w] a w f show ?thesis
    by (simp add: geminiNoCandidates_def fallbackText_def)
qed

subsection \<open>C5: failures of the pipeline\<close>

text \<open>
  What a failure of the pipeline does. When the run that waits for the speech endpoint gets
  a failure of \<open>convertSpeechToText\<close> (an empty result list is one) or an empty text, and
  when the run that waits for the language endpoint gets a failure of \<open>getGeminiResponse\<close>,
  the error message is set, the processing and speaking flags are cleared, the run is over,
  and no call of the response client is added; after a failed transcription no answer of the
  response client can arrive for that run. The recording flag stays as it was: with no
  recording going on the session is idle and the next trigger action starts a recording.
\<close>

lemma pipeline_failure_effects:
  "(pid < length (pipelines s) \<and> pipelines s ! pid = AwaitingTranscript
      \<and> (convertSpeechToText response = Inl e \<or> convertSpeechToText response = Inr []) \<longrightarrow>
      (\<exists>s'. step (Transcribed pid response) s = Some s'
         \<and> error s' = Some processingError \<and> \<not> isProcessing s' \<and> \<not> isPlaying s'
         \<and> isRecording s' = isRecording s
         \<and> geminiCalls s' = geminiCalls s \<and> speakCalls s' = speakCalls s
         \<and> pipelines s' ! pid = Finished
         \<and> (\<forall>answer. step (Replied pid answer) s' = None)
         \<and> (\<not> isRecording s \<longrightarrow> idle s' \<and> handleButtonClick s' = startRecording s')))
   \<and> (pid < length (pipelines s) \<and> pipelines s ! pid = AwaitingReply
      \<and> getGeminiResponse answer = Inl e \<longrightarrow>
      (\<exists>s'. step (Replied pid answer) s = Some s'
         \<and> error s' = Some processingError \<and> \<not> isProcessing s' \<and> \<not> isPlaying s'
         \<and> isRecording s' = isRecording s
         \<and> geminiCalls s' = geminiCalls s \<and> speakCalls s' = speakCalls s
         \<and> pipelines s' ! pid = Finished
         \<and> (\<not> isRecording s \<longrightarrow> idle s' \<and> handleButtonClick s' = startRecording s')))
   \<and> (results data = Some [] \<longrightarrow> (\<exists>e. convertSpeechToText (Ok data) = Inl e))"
proof (intro conjI impI)
  assume h: "pid < length (pipelines s) \<and> pipelines s ! pid = AwaitingTranscript
      \<and> (convertSpeechToText response = Inl e \<or> convertSpeechToText response = Inr [])"
  then have "onstop_transcribed pid response s = finish pid (onstop_finally (onstop_catch s))"
    by (auto simp: onstop_transcribed_def)
  with h show "\<exists>s'. step (Transcribed pid response) s = Some s'
         \<and> error s' = Some processingError \<and> \<not> isProcessing s' \<and> \<not> isPlaying s'
         \<and> isRecording s' = isRecording s
         \<and> geminiCalls s' = geminiCalls s \<and> speakCalls s' = speakCalls s
         \<and> pipelines s' ! pid = Finished
         \<and> (\<forall>answer. step (Replied pid answer) s' = None)
         \<and> (\<not> isRecording s \<longrightarrow> idle s' \<and> handleButtonClick s' = startRecording s')"
    by (simp add: finish_def onstop_finally_def onstop_catch_def idle_def handleButtonClick_def)
next
  assume h: "pid < length (pipelines s) \<and> pipelines s ! pid = AwaitingReply
      \<and> getGeminiResponse answer = Inl e"
  then have "onstop_replied pid answer s = finish pid (onstop_finally (onstop_catch s))"
    by (simp add: onstop_replied_def)
  with h show "\<exists>s'. step (Replied pid answer) s = Some s'
         \<and> error s' = Some processingError \<and> \<not> isProcessing s' \<and> \<not> isPlaying s'
         \<and> isRecording s' = isRecording s
         \<and> geminiCalls s' = geminiCalls s \<and> speakCalls s' = speakCalls s
         \<and> pipelines s' ! pid = Finished
         \<and> (\<not> isRecording s \<longrightarrow> idle s' \<and> handleButtonClick s' = startRecording s')"
    by (simp add: finish_def onstop_finally_def onstop_catch_def idle_def handleButtonClick_def)
next
  assume "results data = Some []"
  then show "\<exists>e. convertSpeechToText (Ok data) = Inl e"
    by (simp add: convertSpeechToText_def convertSpeechToText_try_def)
qed

text \<open>
  C5. The claim: whenever the transcription client fails, the session is back at idle with
  the error message set and the response client is not called; every failure of the
  pipeline leaves the session idle and ready for a new trigger action. The code: the
  \<open>catch\<close> and \<open>finally\<close> of the handler set the error and clear the speaking and
  processing flags, and the response client is not called, but the recording flag is not
  theirs to clear. A trigger action during processing starts a second recording (the
  missing test of \<open>isProcessing\<close> in \<open>handleButtonClick\<close>); when the speech endpoint then
  answers the first run with an empty result list, the error is set while the recording
  flag is still set: the session is not idle, and the next trigger action stops the
  recording instead of starting one.
\<close>

theorem pipeline_failure_during_new_recording:
  "map_option
     (\<lambda>s. (error s, isRecording s, isProcessing s, isPlaying s, idle s, geminiCalls s,
           isRecording (handleButtonClick s), pendingMic (handleButtonClick s)))
     (run initial overlapFailureTrace)
   = Some (Some processingError, True, False, False, False, [], False, 0)"
  by (simp add: overlapFailureTrace_def initial_def handleButtonClick_def startRecording_def
      startRecording_resume_def stopRecording_def stop_recorder_def newRecorder_def
      onstop_begin_def onstop_transcribed_def sttNoResults_def convertSpeechToText_def
      convertSpeechToText_try_def finish_def onstop_finally_def onstop_catch_def idle_def)

subsection \<open>C6: starting a recording\<close>

text \<open>
  C6. In a state where the trigger action starts a recording (neither speaking nor
  recording), the action requests the microphone and sets no flag. If the request is
  rejected, the microphone error is set, no recorder is made and the flags stay as they
  were, so an idle session stays idle. If the stream is granted, a new recorder is stored
  in the reference and records, the fragments are reset, the recording flag is set and the
  error is cleared.
\<close>

theorem startRecording_outcomes:
  assumes "\<not> isPlaying s" and "\<not> isRecording s"
  shows "\<not> isRecording (handleButtonClick s)
    \<and> (\<exists>s2. run s [Click, MicResolved Denied] = Some s2
          \<and> error s2 = Some ''Unable to access microphone. Please check your permissions.''
          \<and> \<not> isRecording s2 \<and> \<not> isPlaying s2 \<and> isProcessing s2 = isProcessing s
          \<and> recorders s2 = recorders s \<and> mediaRecorderRef s2 = mediaRecorderRef s
          \<and> (idle s \<longrightarrow> idle s2))
    \<and> (\<exists>s3. run s [Click, MicResolved Granted] = Some s3
          \<and> isRecording s3 \<and> error s3 = None \<and> audioChunksRef s3 = []
          \<and> recorders s3 = recorders s @ [newRecorder]
          \<and> mediaRecorderRef s3 = Some (length (recorders s))
          \<and> rstate (recorders s3 ! length (recorders s)) = Recording
          \<and> isPlaying s3 = isPlaying s \<and> isProcessing s3 = isProcessing s)"
  using assms
  by (simp add: handleButtonClick_def startRecording_def startRecording_resume_def
      newRecorder_def idle_def)

theorem startRecording_outcomes_witness:
  "\<not> isPlaying erroredState \<and> \<not> isRecording erroredState \<and> idle erroredState
   \<and> error erroredState = Some processingError
   \<and> (\<exists>s2. run erroredState [Click, MicResolved Denied] = Some s2
         \<and> error s2 = Some ''Unable to access microphone. Please check your permissions.''
         \<and> idle s2 \<and> recorders s2 = [])
   \<and> (\<exists>s3. run erroredState [Click, MicResolved Granted] = Some s3
         \<and> isRecording s3 \<and> error s3 = None \<and> recorders s3 = [newRecorder]
         \<and> mediaRecorderRef s3 = Some 0)"
proof -
  have a: "\<not> isPlaying erroredState" "\<not> isRecording erroredState" "idle erroredState"
    "error erroredState = Some processingError" "recorders erroredState = []"
    by (simp_all add: erroredState_def initial_def idle_def)
  from startRecording_outcomes [OF a(1) a(2)] a show ?thesis
    by (auto simp del: run.simps)
qed

subsection \<open>C7: cancelling playback\<close>

text \<open>
  What the trigger action itself does in a state with the speaking flag set: it empties the
  speech queue, clears the speaking flag, and leaves the error and the other two flags as
  they were; when neither of them was set the session is idle right after the action.
\<close>

lemma click_while_speaking_effects:
  assumes "isPlaying s"
  shows "\<exists>s'. step Click s = Some s' \<and> synthQueue s' = [] \<and> \<not> isPlaying s'
    \<and> error s' = error s \<and> isRecording s' = isRecording s \<and> isProcessing s' = isProcessing s
    \<and> speakCalls s' = speakCalls s \<and> pendingMic s' = pendingMic s
    \<and> (\<not> isRecording s \<and> \<not> isProcessing s \<longrightarrow> idle s')"
  using assms by (simp add: handleButtonClick_def stopSpeaking_def idle_def)

text \<open>
  C7. The claim: in every state with the speaking flag set, the trigger action stops the
  speech engine, clears the speaking flag, brings the session back to idle and sets no
  error for the cancellation. The code: the trigger action calls \<open>cancel()\<close> and clears the
  flag, and sets no error itself. The engine then raises the error event of the cancelled
  utterance, and the \<open>onerror\<close> of lines 160 to 163, which does not look at the kind of
  error, sets the playback error. When a second recording was started during processing
  (the missing test of \<open>isProcessing\<close> in \<open>handleButtonClick\<close>), the speaking and recording
  flags are both set at playback, and the cancellation leaves the session recording, not
  idle.
\<close>

theorem cancel_sets_playback_error:
  "map_option (\<lambda>s. (isPlaying s, synthQueue s, error s, idle s)) (run initial cancelTrace)
     = Some (False, [], None, True)
   \<and> map_option (\<lambda>s. (isPlaying s, error s)) (run initial cancelErrorTrace)
     = Some (False, Some ''Error playing audio response'')
   \<and> map_option (\<lambda>s. (isPlaying s, isRecording s, isProcessing s))
       (run initial overlapSpeakingTrace) = Some (True, True, False)
   \<and> map_option (\<lambda>s. (isPlaying s, isRecording s, idle s)) (run initial overlapCancelTrace)
     = Some (False, True, False)"
  by (simp add: cancelTrace_def cancelErrorTrace_def overlapSpeakingTrace_def
      overlapCancelTrace_def initial_def handleButtonClick_def startRecording_def
      startRecording_resume_def stopRecording_def stop_recorder_def newRecorder_def
      onstop_begin_def onstop_transcribed_def onstop_replied_def sttHello_text geminiHi_text
      finish_def onstop_finally_def speak_def stopSpeaking_def utterance_onerror_def idle_def)

subsection \<open>C8: the response client is never called with an empty text\<close>

text \<open>
  C8. Whatever events happen from the initial session, no call of \<open>getGeminiResponse\<close>
  carries an empty text. When \<open>convertSpeechToText\<close> returns the empty string, the run
  takes the \<open>catch\<close> and ends without calling the response client; when it returns a
  non-empty text, the response client is called with that text.
\<close>

theorem response_client_never_called_with_empty_text:
  "(run initial es = Some s \<longrightarrow> [] \<notin> set (geminiCalls s))
   \<and> (pid < length (pipelines s0) \<and> pipelines s0 ! pid = AwaitingTranscript
        \<and> convertSpeechToText response = Inr [] \<longrightarrow>
        (\<exists>s'. step (Transcribed pid response) s0 = Some s'
           \<and> geminiCalls s' = geminiCalls s0 \<and> error s' = Some processingError
           \<and> \<not> isProcessing s' \<and> pipelines s' ! pid = Finished))
   \<and> (pid < length (pipelines s0) \<and> pipelines s0 ! pid = AwaitingTranscript
        \<and> convertSpeechToText response = Inr t \<and> t \<noteq> [] \<longrightarrow>
        (\<exists>s'. step (Transcribed pid response) s0 = Some s'
           \<and> geminiCalls s' = geminiCalls s0 @ [t] \<and> pipelines s' ! pid = AwaitingReply))"
proof (intro conjI impI)
  assume "run initial es = Some s"
  then have "calls_nonempty s"
    using initial_calls_nonempty by (rule run_calls_nonempty)
  then show "[] \<notin> set (geminiCalls s)" by (simp add: calls_nonempty_def)
next
  assume "pid < length (pipelines s0) \<and> pipelines s0 ! pid = AwaitingTranscript
        \<and> convertSpeechToText response = Inr []"
  then show "\<exists>s'. step (Transcribed pid response) s0 = Some s'
           \<and> geminiCalls s' = geminiCalls s0 \<and> error s' = Some processingError
           \<and> \<not> isProcessing s' \<and> pipelines s' ! pid = Finished"
    by (simp add: onstop_transcribed_def finish_def onstop_finally_def onstop_catch_def)
next
  assume "pid < length (pipelines s0) \<and> pipelines s0 ! pid = AwaitingTranscript
        \<and> convertSpeechToText response = Inr t \<and> t \<noteq> []"
  then show "\<exists>s'. step (Transcribed pid response) s0 = Some s'
           \<and> geminiCalls s' = geminiCalls s0 @ [t] \<and> pipelines s' ! pid = AwaitingReply"
    by (simp add: onstop_transcribed_def)
qed

theorem response_client_never_called_with_empty_text_witness:
  "run initial helloTrace = Some replyingState
   \<and> geminiCalls replyingState = [''hello''] \<and> [] \<notin> set (geminiCalls replyingState)
   \<and> (0::nat) < length (pipelines transcribingState)
   \<and> pipelines transcribingState ! 0 = AwaitingTranscript
   \<and> convertSpeechToText sttSilence = Inr []
   \<and> (\<exists>s'. step (Transcribed 0 sttSilence) transcribingState = Some s'
         \<and> geminiCalls s' = [] \<and> error s' = Some processingError \<and> \<not> isProcessing s')
   \<and> convertSpeechToText sttHello = Inr ''hello''
   \<and> (\<exists>s'. step (Transcribed 0 sttHello) transcribingState = Some s'
         \<and> geminiCalls s' = [''hello''])"
proof -
  have a: "(0::nat) < length (pipelines transcribingState)"
    "pipelines transcribingState ! 0 = AwaitingTranscript"
    "geminiCalls transcribingState = []"
    by (simp_all add: transcribingState_def initial_def)
  have b: "convertSpeechToText sttSilence = Inr []"
    by (simp add: sttSilence_def convertSpeechToText_def convertSpeechToText_try_def)
  have c: "geminiCalls replyingState = [''hello'']"
    by (simp add: replyingState_def)
  have h: "''hello'' \<noteq> []" by simp
  from run_helloTrace
    response_client_never_called_with_empty_text [of helloTrace replyingState]
  have 1: "[] \<notin> set (geminiCalls replyingState)" by blast
  from a b response_client_never_called_with_empty_text
    [of _ _ 0 transcribingState sttSilence]
  have 2: "\<exists>s'. step (Transcribed 0 sttSilence) transcribingState = Some s'
         \<and> geminiCalls s' = [] \<and> error s' = Some processingError \<and> \<not> isProcessing s'"
    by auto
  from a sttHello_text h response_client_never_called_with_empty_text
    [of _ _ 0 transcribingState sttHello "''hello''"]
  have 3: "\<exists>s'. step (Transcribed 0 sttHello) transcribingState = Some s'
         \<and> geminiCalls s' = [''hello'']"
    by auto
  from run_helloTrace a b c sttHello_text 1 2 3 show ?thesis by simp
qed

subsection \<open>C10: the speech output never gets an empty text\<close>

text \<open>
  C10. Every text \<open>getGeminiResponse\<close> returns is non-empty: it is the first text part of
  the first candidate, non-empty, or the fallback text, which is non-empty. Whatever events
  happen from the initial session, no call of \<open>speak\<close> carries an empty text.
\<close>

theorem speech_output_never_empty:
  "(getGeminiResponse answer = Inr t \<longrightarrow>
      t \<noteq> []
      \<and> (t = fallbackText \<or> (\<exists>data. answer = Ok data \<and> firstCandidateText data = Some t)))
   \<and> fallbackText \<noteq> []
   \<and> (run initial es = Some s \<longrightarrow> [] \<notin> set (speakCalls s))"
proof (intro conjI impI)
  assume g: "getGeminiResponse answer = Inr t"
  then show "t \<noteq> []" by (rule getGeminiResponse_Inr_nonempty)
  from g show "t = fallbackText \<or> (\<exists>data. answer = Ok data \<and> firstCandidateText data = Some t)"
    unfolding getGeminiResponse_def getGeminiResponse_try_def
    by (auto split: fetch_result.splits option.splits if_splits)
next
  show "fallbackText \<noteq> []" by (rule fallbackText_nonempty)
next
  assume "run initial es = Some s"
  then have "calls_nonempty s"
    using initial_calls_nonempty by (rule run_calls_nonempty)
  then show "[] \<notin> set (speakCalls s)" by (simp add: calls_nonempty_def)
qed

theorem speech_output_never_empty_witness:
  "getGeminiResponse geminiHi = Inr ''Hi there'' \<and> ''Hi there'' \<noteq> []
   \<and> getGeminiResponse geminiNoCandidates = Inr fallbackText
   \<and> (\<exists>s. run initial hiTrace = Some s \<and> speakCalls s = [''Hi there'']
         \<and> [] \<notin> set (speakCalls s))"
proof -
  have n: "getGeminiResponse geminiNoCandidates = Inr fallbackText"
    by (simp add: geminiNoCandidates_def getGeminiResponse_def getGeminiResponse_try_def
        firstCandidateText_def)
  from geminiHi_text speech_output_never_empty [of geminiHi "''Hi there''"]
  have 1: "''Hi there'' \<noteq> []" by blast
  from run_hiTrace obtain s where s: "run initial hiTrace = Some s"
    "speakCalls s = [''Hi there'']" by simp
  from s(1) speech_output_never_empty [of _ _ hiTrace s]
  have "[] \<notin> set (speakCalls s)" by blast
  with s geminiHi_text n 1 show ?thesis by blast
qed

subsection \<open>C9: stopping with no fragment recorded\<close>

text \<open>
  C9, as claimed: after a stop with no fragment, the run ends in the error path for every
  answer of the speech endpoint. The handler does not look at the payload: with no fragment
  recorded the request carries the empty content, and when the endpoint answers with a
  transcript all the same, the run goes on to the response client with no error set.
\<close>

theorem empty_payload_run_counterexample:
  "run initial processingTrace = Some transcribingState
   \<and> audioChunksRef transcribingState = []
   \<and> map audio_content (sttRequests transcribingState) = [[]]
   \<and> run initial helloTrace = Some replyingState
   \<and> geminiCalls replyingState = [''hello'']
   \<and> error replyingState = None
   \<and> isProcessing replyingState
   \<and> pipelines replyingState = [AwaitingReply]"
  by (simp add: run_processingTrace run_helloTrace)
     (simp add: replyingState_def transcribingState_def initial_def empty_payload_content)

text \<open>
  C9, amended. When the \<open>stop\<close> event of a recorder fires with no fragment recorded, the
  transcription request is sent with the empty content. For every answer of the speech
  endpoint the handler completes: whatever is thrown inside \<open>convertSpeechToText\<close> comes out
  as its one error, and the \<open>catch\<close> of the handler takes it. For a success status whose
  first result has a first alternative with a non-empty transcript, the run calls the
  response client with that transcript, sets no error and stays in processing. For every
  other answer the run ends in the error path: the error message is set, the processing and
  speaking flags are cleared, the response client is not called and the run is over.
\<close>

theorem empty_payload_run:
  assumes "audioChunksRef s = []"
    and "rid < length (recorders s)" and "stopQueued (recorders s ! rid)"
  shows "\<exists>s1. step (Stopped rid) s = Some s1
    \<and> isProcessing s1
    \<and> sttRequests s1 = sttRequests s @ [requestBody []]
    \<and> audio_content (requestBody []) = []
    \<and> pipelines s1 = pipelines s @ [AwaitingTranscript]
    \<and> (\<forall>response.
          (\<exists>s2. step (Transcribed (length (pipelines s)) response) s1 = Some s2)
          \<and> (convertSpeechToText response = Inl (Error ''Failed to convert speech to text'')
              \<or> (\<exists>t. convertSpeechToText response = Inr t)))
    \<and> (\<forall>data r rs a as t.
          results data = Some (r # rs) \<and> alternatives r = Some (a # as)
          \<and> transcript a = Some t \<and> t \<noteq> [] \<longrightarrow>
          (\<exists>s2. step (Transcribed (length (pipelines s)) (Ok data)) s1 = Some s2
             \<and> geminiCalls s2 = geminiCalls s @ [t]
             \<and> pipelines s2 ! length (pipelines s) = AwaitingReply
             \<and> error s2 = error s \<and> isProcessing s2 \<and> isPlaying s2 = isPlaying s))
    \<and> (\<forall>response.
          \<not> (\<exists>data r rs a as t. response = Ok data \<and> results data = Some (r # rs)
                \<and> alternatives r = Some (a # as) \<and> transcript a = Some t \<and> t \<noteq> []) \<longrightarrow>
          (\<exists>s2. step (Transcribed (length (pipelines s)) response) s1 = Some s2
             \<and> error s2 = Some processingError \<and> \<not> isProcessing s2 \<and> \<not> isPlaying s2
             \<and> geminiCalls s2 = geminiCalls s
             \<and> pipelines s2 ! length (pipelines s) = Finished))"
proof -
  define s1 where "s1 = onstop_begin
    (s\<lparr> recorders := (recorders s)[rid := (recorders s ! rid)\<lparr> stopQueued := False \<rparr>] \<rparr>)"
  have st: "step (Stopped rid) s = Some s1"
    using assms by (simp add: s1_def)
  have f: "isProcessing s1" "sttRequests s1 = sttRequests s @ [requestBody []]"
    "pipelines s1 = pipelines s @ [AwaitingTranscript]"
    using assms by (simp_all add: s1_def onstop_begin_def)
  have g: "geminiCalls s1 = geminiCalls s" "error s1 = error s" "isPlaying s1 = isPlaying s"
    by (simp_all add: s1_def onstop_begin_def)
  have en: "length (pipelines s) < length (pipelines s1)"
    "pipelines s1 ! length (pipelines s) = AwaitingTranscript"
    by (simp_all add: f)
  have stp: "step (Transcribed (length (pipelines s)) response) s1
      = Some (onstop_transcribed (length (pipelines s)) response s1)" for response
    using en by simp
  have completes: "(\<exists>s2. step (Transcribed (length (pipelines s)) response) s1 = Some s2)
      \<and> (convertSpeechToText response = Inl (Error ''Failed to convert speech to text'')
          \<or> (\<exists>t. convertSpeechToText response = Inr t))" for response
    using stp [of response] convertSpeechToText_cases [of response] by blast
  have calls: "\<exists>s2. step (Transcribed (length (pipelines s)) (Ok data)) s1 = Some s2
             \<and> geminiCalls s2 = geminiCalls s @ [t]
             \<and> pipelines s2 ! length (pipelines s) = AwaitingReply
             \<and> error s2 = error s \<and> isProcessing s2 \<and> isPlaying s2 = isPlaying s"
    if sh: "results data = Some (r # rs) \<and> alternatives r = Some (a # as)
          \<and> transcript a = Some t \<and> t \<noteq> []" for data r rs a as t
  proof -
    from sh have c: "convertSpeechToText (Ok data) = Inr t" and ne: "t \<noteq> []"
      by (simp_all add: convertSpeechToText_transcript)
    have o: "onstop_transcribed (length (pipelines s)) (Ok data) s1
        = s1\<lparr> geminiCalls := geminiCalls s1 @ [t],
              pipelines := (pipelines s1)[length (pipelines s) := AwaitingReply] \<rparr>"
      using c ne by (rule onstop_transcribed_text)
    have "geminiCalls (onstop_transcribed (length (pipelines s)) (Ok data) s1)
            = geminiCalls s @ [t]
        \<and> pipelines (onstop_transcribed (length (pipelines s)) (Ok data) s1)
            ! length (pipelines s) = AwaitingReply
        \<and> error (onstop_transcribed (length (pipelines s)) (Ok data) s1) = error s
        \<and> isProcessing (onstop_transcribed (length (pipelines s)) (Ok data) s1)
        \<and> isPlaying (onstop_transcribed (length (pipelines s)) (Ok data) s1) = isPlaying s"
      using en f(1) g by (simp add: o)
    with stp [of "Ok data"] show ?thesis by blast
  qed
  have fails: "\<exists>s2. step (Transcribed (length (pipelines s)) response) s1 = Some s2
             \<and> error s2 = Some processingError \<and> \<not> isProcessing s2 \<and> \<not> isPlaying s2
             \<and> geminiCalls s2 = geminiCalls s
             \<and> pipelines s2 ! length (pipelines s) = Finished"
    if no: "\<not> (\<exists>data r rs a as t. response = Ok data \<and> results data = Some (r # rs)
                \<and> alternatives r = Some (a # as) \<and> transcript a = Some t \<and> t \<noteq> [])"
    for response
  proof -
    from no have "convertSpeechToText response = Inl (Error ''Failed to convert speech to text'')
        \<or> convertSpeechToText response = Inr []"
      by (rule convertSpeechToText_no_transcript)
    then have o: "onstop_transcribed (length (pipelines s)) response s1
        = finish (length (pipelines s)) (onstop_finally (onstop_catch s1))"
      by (rule onstop_transcribed_failure)
    have "error (onstop_transcribed (length (pipelines s)) response s1) = Some processingError
        \<and> \<not> isProcessing (onstop_transcribed (length (pipelines s)) response s1)
        \<and> \<not> isPlaying (onstop_transcribed (length (pipelines s)) response s1)
        \<and> geminiCalls (onstop_transcribed (length (pipelines s)) response s1) = geminiCalls s
        \<and> pipelines (onstop_transcribed (length (pipelines s)) response s1)
            ! length (pipelines s) = Finished"
      using en g by (simp add: o finish_def onstop_finally_def onstop_catch_def)
    with stp [of response] show ?thesis by blast
  qed
  have A: "\<forall>response.
          (\<exists>s2. step (Transcribed (length (pipelines s)) response) s1 = Some s2)
          \<and> (convertSpeechToText response = Inl (Error ''Failed to convert speech to text'')
              \<or> (\<exists>t. convertSpeechToText response = Inr t))"
    using completes by blast
  have B: "\<forall>data r rs a as t.
          results data = Some (r # rs) \<and> alternatives r = Some (a # as)
          \<and> transcript a = Some t \<and> t \<noteq> [] \<longrightarrow>
          (\<exists>s2. step (Transcribed (length (pipelines s)) (Ok data)) s1 = Some s2
             \<and> geminiCalls s2 = geminiCalls s @ [t]
             \<and> pipelines s2 ! length (pipelines s) = AwaitingReply
             \<and> error s2 = error s \<and> isProcessing s2 \<and> isPlaying s2 = isPlaying s)"
    using calls by blast
  have C: "\<forall>response.
          \<not> (\<exists>data r rs a as t. response = Ok data \<and> results data = Some (r # rs)
                \<and> alternatives r = Some (a # as) \<and> transcript a = Some t \<and> t \<noteq> []) \<longrightarrow>
          (\<exists>s2. step (Transcribed (length (pipelines s)) response) s1 = Some s2
             \<and> error s2 = Some processingError \<and> \<not> isProcessing s2 \<and> \<not> isPlaying s2
             \<and> geminiCalls s2 = geminiCalls s
             \<and> pipelines s2 ! length (pipelines s) = Finished)"
    using fails by blast
  from st f(1) f(2) empty_payload_content f(3) A B C show ?thesis
    by - (rule exI [of _ s1], (rule conjI, assumption)+, assumption)
qed

theorem empty_payload_run_witness:
  "audioChunksRef stoppedState = [] \<and> (0::nat) < length (recorders stoppedState)
   \<and> stopQueued (recorders stoppedState ! 0)
   \<and> step (Stopped 0) stoppedState = Some transcribingState
   \<and> sttRequests transcribingState = [requestBody []]
   \<and> (\<exists>s2. step (Transcribed 0 sttNoResults) transcribingState = Some s2
         \<and> error s2 = Some processingError \<and> \<not> isProcessing s2 \<and> geminiCalls s2 = [])
   \<and> (\<exists>s2. step (Transcribed 0 sttHello) transcribingState = Some s2
         \<and> geminiCalls s2 = [''hello''] \<and> pipelines s2 ! 0 = AwaitingReply
         \<and> error s2 = None \<and> isProcessing s2)"
proof -
  have a: "audioChunksRef stoppedState = []" "(0::nat) < length (recorders stoppedState)"
    "stopQueued (recorders stoppedState ! 0)"
    by (simp_all add: stoppedState_def initial_def)
  have p: "length (pipelines stoppedState) = 0" "geminiCalls stoppedState = []"
    "error stoppedState = None"
    by (simp_all add: stoppedState_def initial_def)
  have b: "step (Stopped 0) stoppedState = Some transcribingState"
    by (simp add: stoppedState_def transcribingState_def initial_def onstop_begin_def)
  have r: "sttRequests transcribingState = [requestBody []]"
    by (simp add: transcribingState_def)
  from empty_payload_run [OF a] obtain s1 where
    s1: "step (Stopped 0) stoppedState = Some s1"
    and calls: "\<forall>data r rs a as t.
          results data = Some (r # rs) \<and> alternatives r = Some (a # as)
          \<and> transcript a = Some t \<and> t \<noteq> [] \<longrightarrow>
          (\<exists>s2. step (Transcribed (length (pipelines stoppedState)) (Ok data)) s1 = Some s2
             \<and> geminiCalls s2 = geminiCalls stoppedState @ [t]
             \<and> pipelines s2 ! length (pipelines stoppedState) = AwaitingReply
             \<and> error s2 = error stoppedState \<and> isProcessing s2
             \<and> isPlaying s2 = isPlaying stoppedState)"
    and fails: "\<forall>response.
          \<not> (\<exists>data r rs a as t. response = Ok data \<and> results data = Some (r # rs)
                \<and> alternatives r = Some (a # as) \<and> transcript a = Some t \<and> t \<noteq> []) \<longrightarrow>
          (\<exists>s2. step (Transcribed (length (pipelines stoppedState)) response) s1 = Some s2
             \<and> error s2 = Some processingError \<and> \<not> isProcessing s2 \<and> \<not> isPlaying s2
             \<and> geminiCalls s2 = geminiCalls stoppedState
             \<and> pipelines s2 ! length (pipelines stoppedState) = Finished)"
    by blast
  from s1 b have eq: "s1 = transcribingState" by (simp del: step.simps)
  have none: "\<not> (\<exists>data r rs a as t. sttNoResults = Ok data \<and> results data = Some (r # rs)
                \<and> alternatives r = Some (a # as) \<and> transcript a = Some t \<and> t \<noteq> [])"
    by (simp add: sttNoResults_def)
  from fails none obtain s2 where
    "step (Transcribed (length (pipelines stoppedState)) sttNoResults) s1 = Some s2"
    "error s2 = Some processingError" "\<not> isProcessing s2"
    "geminiCalls s2 = geminiCalls stoppedState"
    by blast
  then have 1: "\<exists>s2. step (Transcribed 0 sttNoResults) transcribingState = Some s2
         \<and> error s2 = Some processingError \<and> \<not> isProcessing s2 \<and> geminiCalls s2 = []"
    by (simp only: p eq) blast
  have hello: "results \<lparr> results = Some [\<lparr> alternatives = Some [\<lparr> transcript = Some ''hello'' \<rparr>] \<rparr>] \<rparr>
        = Some (\<lparr> alternatives = Some [\<lparr> transcript = Some ''hello'' \<rparr>] \<rparr> # [])
      \<and> alternatives \<lparr> alternatives = Some [\<lparr> transcript = Some ''hello'' \<rparr>] \<rparr>
        = Some (\<lparr> transcript = Some ''hello'' \<rparr> # [])
      \<and> transcript \<lparr> transcript = Some ''hello'' \<rparr> = Some ''hello'' \<and> ''hello'' \<noteq> []"
    by simp
  from calls hello obtain s3 where
    "step (Transcribed (length (pipelines stoppedState))
       (Ok \<lparr> results = Some [\<lparr> alternatives = Some [\<lparr> transcript = Some ''hello'' \<rparr>] \<rparr>] \<rparr>)) s1
       = Some s3"
    "geminiCalls s3 = geminiCalls stoppedState @ [''hello'']"
    "pipelines s3 ! length (pipelines stoppedState) = AwaitingReply"
    "error s3 = error stoppedState" "isProcessing s3"
    by blast
  then have 2: "\<exists>s2. step (Transcribed 0 sttHello) transcribingState = Some s2
         \<and> geminiCalls s2 = [''hello''] \<and> pipelines s2 ! 0 = AwaitingReply
         \<and> error s2 = None \<and> isProcessing s2"
    by (simp only: p eq sttHello_def append_Nil) blast
  from a b r 1 2 show ?thesis by (simp del: step.simps)
qed

end
